theory Spec2Isabelle
  imports Main
begin

section \<open>Values that cross the HTTP boundary\<close>

text \<open>
  A field of a parsed request body is an arbitrary JSON value, or is absent. Only the
  distinctions the handlers of \<^verbatim>\<open>api/index.js\<close> make are kept: truthiness, and whether
  \<^verbatim>\<open>.trim()\<close> can be called on the value (strings only; on every other value the call
  raises a TypeError). Arrays and objects are one constructor: both are truthy and
  neither has a callable \<^verbatim>\<open>trim\<close>. The payload of a number is kept as
  an integer, since only whether it is zero is ever observed.
\<close>

datatype jsval = JUndefined | JNull | JBool bool | JNum int | JStr string | JObject

fun truthy :: "jsval \<Rightarrow> bool" where
  "truthy JUndefined = False"
| "truthy JNull = False"
| "truthy (JBool b) = b"
| "truthy (JNum n) = (n \<noteq> 0)"
| "truthy (JStr s) = (s \<noteq> [])"
| "truthy JObject = True"

text \<open>
  \<^verbatim>\<open>String.prototype.trim\<close> removes white space and line terminators from both ends.
  Strings are lists of 8-bit characters; the code units of that range which JavaScript
  trims are TAB, LF, VT, FF, CR, SPACE and NBSP.
\<close>

definition is_white_space :: "char \<Rightarrow> bool" where
  "is_white_space c \<longleftrightarrow> (of_char c :: nat) \<in> {9, 10, 11, 12, 13, 32, 160}"

definition trim :: "string \<Rightarrow> string" where
  "trim s = rev (dropWhile is_white_space (rev (dropWhile is_white_space s)))"

text \<open>\<^verbatim>\<open>v.trim()\<close> on a body field: a string is trimmed, anything else throws.\<close>

fun call_trim :: "jsval \<Rightarrow> string + string" where
  "call_trim (JStr s) = Inr (trim s)"
| "call_trim JUndefined = Inl ''TypeError: cannot read properties of undefined''"
| "call_trim JNull = Inl ''TypeError: cannot read properties of null''"
| "call_trim v = Inl ''TypeError: content.trim is not a function''"


section \<open>The relational store\<close>

text \<open>
  All durable state lives in the managed store the handlers reach through
  \<^verbatim>\<open>supabaseAdmin\<close>. Tables are lists of rows. Row ids of posts, likes and comments are
  assigned by the store (\<open>next_id\<close>); the \<^verbatim>\<open>:id\<close> path parameter of a request is the row id
  it denotes. User ids are strings, as they arrive in the query string and in the
  verified principal.
\<close>

record profile =
  pr_username :: "string option"
  pr_avatar_url :: "string option"

record post =
  p_id :: nat
  p_content :: string
  p_image_url :: "string option"
  p_created_at :: nat
  p_user_id :: string

record like =
  l_id :: nat
  l_post_id :: nat
  l_user_id :: string

record comment =
  c_id :: nat
  c_content :: string
  c_created_at :: nat
  c_user_id :: string
  c_post_id :: nat

record store =
  posts :: "post list"
  likes :: "like list"
  comments :: "comment list"
  profile_rows :: "(string \<times> profile) list"
  bucket :: "(string \<times> string) list"
  next_id :: nat

text \<open>
  A call of the store client is awaited. By default the client reports a failure as a
  value: the promise resolves to \<^verbatim>\<open>{data: null, error, count: null}\<close>. A promise can also
  reject, which the \<^verbatim>\<open>await\<close> turns into a throw. Which of the two happens, if any, is not
  decided by the program: each call takes a \<open>fault option\<close>, \<open>None\<close> when the store
  performs the operation. A faulted call leaves the tables as they were.
\<close>

datatype fault = Error_response string | Rejected string

record 'a resp =
  r_data :: "'a option"
  r_error :: "string option"
  r_count :: "nat option"

definition answered :: "'a option \<Rightarrow> nat option \<Rightarrow> 'a resp" where
  "answered d c = \<lparr>r_data = d, r_error = None, r_count = c\<rparr>"

definition failed :: "string \<Rightarrow> 'a resp" where
  "failed e = \<lparr>r_data = None, r_error = Some e, r_count = None\<rparr>"

text \<open>Awaiting a read: \<open>Inl\<close> is the thrown rejection, \<open>Inr\<close> the resolved response.\<close>

definition await :: "fault option \<Rightarrow> 'a resp \<Rightarrow> string + 'a resp" where
  "await f r =
     (case f of
        None \<Rightarrow> Inr r
      | Some (Error_response e) \<Rightarrow> Inr (failed e)
      | Some (Rejected e) \<Rightarrow> Inl e)"

text \<open>Awaiting a mutation: the new store comes with the response.\<close>

definition await_mut :: "fault option \<Rightarrow> store \<Rightarrow> 'a resp \<times> store \<Rightarrow> string + ('a resp \<times> store)" where
  "await_mut f s r =
     (case f of
        None \<Rightarrow> Inr r
      | Some (Error_response e) \<Rightarrow> Inr (failed e, s)
      | Some (Rejected e) \<Rightarrow> Inl e)"

text \<open>
  \<^verbatim>\<open>.single()\<close> and \<^verbatim>\<open>.maybeSingle()\<close> return \<^verbatim>\<open>data\<close> as one object instead of an array.
  The client documents both by the number of rows of the query result: \<^verbatim>\<open>.single()\<close>
  requires exactly one row and \<^verbatim>\<open>.maybeSingle()\<close> zero or one, with \<^verbatim>\<open>data: null\<close> for
  zero; on any other number the response is an error (code PGRST116) with
  \<^verbatim>\<open>data: null\<close>.
\<close>

fun single :: "'a list \<Rightarrow> 'a resp" where
  "single [r] = answered (Some r) None"
| "single rs = failed ''PGRST116''"

fun maybeSingle :: "'a list \<Rightarrow> 'a resp" where
  "maybeSingle [] = answered None None"
| "maybeSingle [r] = answered (Some r) None"
| "maybeSingle rs = failed ''PGRST116''"

text \<open>\<^verbatim>\<open>.select('*', { count: 'exact', head: true })\<close>: no rows, only their number.\<close>

definition count_exact :: "'a list \<Rightarrow> 'a resp" where
  "count_exact rs = answered None (Some (length rs))"


section \<open>Rows as the handlers see them\<close>

text \<open>
  The feed query selects the columns of a post together with the joined profile of its
  author (\<^verbatim>\<open>profiles!posts_user_id_fkey ( username, avatar_url )\<close>), which is null when
  no profile row matches. The handler spreads that row and adds five fields.
\<close>

record post_row = post +
  profiles :: "profile option"

record enriched_post = post_row +
  author :: string
  avatar_url :: "string option"
  like_count :: nat
  comment_count :: nat
  liked_by_me :: bool

text \<open>The comment query selects id, content, created_at, user_id and the joined profile.\<close>

record comment_row =
  cr_id :: nat
  cr_content :: string
  cr_created_at :: nat
  cr_user_id :: string
  cr_profiles :: "profile option"

record comment_view = comment_row +
  cv_author :: string
  cv_avatar_url :: "string option"

text \<open>\<^verbatim>\<open>x.profiles?.username || 'Unknown'\<close> and \<^verbatim>\<open>x.profiles?.avatar_url || null\<close>.\<close>

definition author_of :: "profile option \<Rightarrow> string" where
  "author_of pr =
     (case pr of
        None \<Rightarrow> ''Unknown''
      | Some p \<Rightarrow>
          (case pr_username p of
             None \<Rightarrow> ''Unknown''
           | Some n \<Rightarrow> if n = [] then ''Unknown'' else n))"

definition avatar_of :: "profile option \<Rightarrow> string option" where
  "avatar_of pr =
     (case pr of
        None \<Rightarrow> None
      | Some p \<Rightarrow>
          (case pr_avatar_url p of
             None \<Rightarrow> None
           | Some a \<Rightarrow> if a = [] then None else Some a))"


section \<open>Responses\<close>

datatype body =
    Posts "enriched_post list"
  | Post_row "post option"
  | Comments "comment_view list"
  | Liked bool
  | Success
  | Error string

record response =
  status :: nat
  payload :: body

definition json :: "body \<Rightarrow> response" where
  "json b = \<lparr>status = 200, payload = b\<rparr>"

definition status_json :: "nat \<Rightarrow> body \<Rightarrow> response" where
  "status_json c b = \<lparr>status = c, payload = b\<rparr>"


section \<open>Feed\<close>

text \<open>
  \<^verbatim>\<open>GET /api/posts\<close>. The query string is a map from parameter names to strings;
  \<^verbatim>\<open>req.query.user_id || null\<close> takes an absent or empty parameter to null.
\<close>

type_synonym query = "string \<rightharpoonup> string"

definition currentUserId :: "query \<Rightarrow> string option" where
  "currentUserId q =
     (case q ''user_id'' of
        None \<Rightarrow> None
      | Some v \<Rightarrow> if v = [] then None else Some v)"

text \<open>The posts with their profiles, \<^verbatim>\<open>.order('created_at', { ascending: false })\<close>.\<close>

definition join_profile :: "store \<Rightarrow> post \<Rightarrow> post_row" where
  "join_profile s p =
     \<lparr>p_id = p_id p, p_content = p_content p, p_image_url = p_image_url p,
      p_created_at = p_created_at p, p_user_id = p_user_id p,
      profiles = map_of (profile_rows s) (p_user_id p)\<rparr>"

definition select_posts :: "store \<Rightarrow> post_row list" where
  "select_posts s = map (join_profile s) (rev (sort_key p_created_at (posts s)))"

definition likes_of_post :: "store \<Rightarrow> nat \<Rightarrow> like list" where
  "likes_of_post s postId = filter (\<lambda>l. l_post_id l = postId) (likes s)"

definition comments_of_post :: "store \<Rightarrow> nat \<Rightarrow> comment list" where
  "comments_of_post s postId = filter (\<lambda>c. c_post_id c = postId) (comments s)"

definition likes_of_pair :: "store \<Rightarrow> nat \<Rightarrow> string \<Rightarrow> like list" where
  "likes_of_pair s postId userId =
     filter (\<lambda>l. l_post_id l = postId \<and> l_user_id l = userId) (likes s)"

text \<open>\<^verbatim>\<open>count || 0\<close>\<close>

definition or_zero :: "nat option \<Rightarrow> nat" where
  "or_zero c = (case c of None \<Rightarrow> 0 | Some n \<Rightarrow> n)"

datatype feed_call = Posts_query | Like_count nat | Comment_count nat | My_like nat

text \<open>
  The callback of \<^verbatim>\<open>posts.map\<close>: two counts, then the viewer's like when a viewer id is
  present. Of each response only \<^verbatim>\<open>count\<close>, respectively \<^verbatim>\<open>data\<close>, is read.
\<close>

definition likedByMe ::
    "(feed_call \<Rightarrow> fault option) \<Rightarrow> store \<Rightarrow> string option \<Rightarrow> nat \<Rightarrow> string + bool" where
  "likedByMe flt s viewer postId =
     (case viewer of
        None \<Rightarrow> Inr False
      | Some u \<Rightarrow>
          (case await (flt (My_like postId)) (maybeSingle (likes_of_pair s postId u)) of
             Inl e \<Rightarrow> Inl e
           | Inr myLike \<Rightarrow> Inr (r_data myLike \<noteq> None)))"

definition enrich ::
    "(feed_call \<Rightarrow> fault option) \<Rightarrow> store \<Rightarrow> string option \<Rightarrow> post_row \<Rightarrow> string + enriched_post" where
  "enrich flt s viewer post =
     (case await (flt (Like_count (p_id post))) (count_exact (likes_of_post s (p_id post))) of
        Inl e \<Rightarrow> Inl e
      | Inr likeCount \<Rightarrow>
          (case await (flt (Comment_count (p_id post)))
                  (count_exact (comments_of_post s (p_id post))) of
             Inl e \<Rightarrow> Inl e
           | Inr commentCount \<Rightarrow>
               (case likedByMe flt s viewer (p_id post) of
                  Inl e \<Rightarrow> Inl e
                | Inr liked \<Rightarrow>
                    Inr \<lparr>p_id = p_id post, p_content = p_content post,
                         p_image_url = p_image_url post, p_created_at = p_created_at post,
                         p_user_id = p_user_id post, profiles = profiles post,
                         author = author_of (profiles post),
                         avatar_url = avatar_of (profiles post),
                         like_count = or_zero (r_count likeCount),
                         comment_count = or_zero (r_count commentCount),
                         liked_by_me = liked\<rparr>)))"

text \<open>\<^verbatim>\<open>Promise.all\<close>: the results in the order of the promises, or a rejection.\<close>

fun promise_all :: "(string + 'a) list \<Rightarrow> string + 'a list" where
  "promise_all [] = Inr []"
| "promise_all (Inl e # ps) = Inl e"
| "promise_all (Inr v # ps) =
     (case promise_all ps of Inl e \<Rightarrow> Inl e | Inr vs \<Rightarrow> Inr (v # vs))"

definition get_posts :: "(feed_call \<Rightarrow> fault option) \<Rightarrow> store \<Rightarrow> query \<Rightarrow> response" where
  "get_posts flt s q =
     (case await (flt Posts_query) (answered (Some (select_posts s)) None) of
        Inl e \<Rightarrow> status_json 500 (Error ''Failed to fetch posts'')
      | Inr r \<Rightarrow>
          (case r_error r of
             Some e \<Rightarrow> status_json 500 (Error ''Failed to fetch posts'')
           | None \<Rightarrow>
               (case r_data r of
                  None \<Rightarrow> status_json 500 (Error ''Failed to fetch posts'')
                | Some ps \<Rightarrow>
                    (case promise_all (map (enrich flt s (currentUserId q)) ps) of
                       Inl e \<Rightarrow> status_json 500 (Error ''Failed to fetch posts'')
                     | Inr enriched \<Rightarrow> json (Posts enriched)))))"


section \<open>Posts\<close>

text \<open>
  The handlers below run behind \<^verbatim>\<open>authenticate\<close>: \<open>userId\<close> is \<^verbatim>\<open>req.user.id\<close> of the
  verified principal. An insert stores the row under the next id with the store's
  current time and, with \<^verbatim>\<open>.select().single()\<close>, answers with it.
\<close>

definition insert_post ::
    "store \<Rightarrow> string \<Rightarrow> string \<Rightarrow> string option \<Rightarrow> nat \<Rightarrow> post resp \<times> store" where
  "insert_post s userId content image_url now =
     (let row = \<lparr>p_id = next_id s, p_content = content, p_image_url = image_url,
                 p_created_at = now, p_user_id = userId\<rparr>
      in (single [row], s\<lparr>posts := posts s @ [row], next_id := Suc (next_id s)\<rparr>))"

text \<open>The tail shared by the handlers that answer with a row: throw on error.\<close>

definition respond_row :: "nat \<Rightarrow> string \<Rightarrow> string + (post resp \<times> store) \<Rightarrow> store \<Rightarrow> response \<times> store" where
  "respond_row code msg awaited s =
     (case awaited of
        Inl e \<Rightarrow> (status_json 500 (Error msg), s)
      | Inr (r, s') \<Rightarrow>
          (case r_error r of
             Some e \<Rightarrow> (status_json 500 (Error msg), s')
           | None \<Rightarrow> (status_json code (Post_row (r_data r)), s')))"

text \<open>\<^verbatim>\<open>POST /api/posts\<close>\<close>

definition create_post ::
    "fault option \<Rightarrow> store \<Rightarrow> string \<Rightarrow> jsval \<Rightarrow> nat \<Rightarrow> response \<times> store" where
  "create_post flt s userId content now =
     (if \<not> truthy content then (status_json 400 (Error ''Content is required''), s)
      else
        (case call_trim content of
           Inl e \<Rightarrow> (status_json 500 (Error ''Failed to create post''), s)
         | Inr trimmed \<Rightarrow>
             if trimmed = [] then (status_json 400 (Error ''Content is required''), s)
             else respond_row 201 ''Failed to create post''
                    (await_mut flt s (insert_post s userId trimmed None now)) s))"

text \<open>
  \<^verbatim>\<open>POST /api/posts/upload\<close>. The object is stored under
  \<^verbatim>\<open>`${req.user.id}/${Date.now()}_${file.originalname}`\<close>; an upload to a name already taken
  is answered with an error. The public URL is the project URL, the bucket and the name,
  passed through \<^verbatim>\<open>encodeURI\<close> by the storage client.
\<close>

record multer_file =
  originalname :: string
  mimetype :: string
  buffer :: string

fun decimal :: "nat \<Rightarrow> string" where
  "decimal n =
     (if n < 10 then [char_of (48 + n)]
      else decimal (n div 10) @ [char_of (48 + n mod 10)])"

declare decimal.simps [simp del]

definition fileName :: "string \<Rightarrow> nat \<Rightarrow> multer_file \<Rightarrow> string" where
  "fileName userId date_now f = userId @ ''/'' @ decimal date_now @ ''_'' @ originalname f"

definition storage_upload :: "store \<Rightarrow> string \<Rightarrow> string \<Rightarrow> string resp \<times> store" where
  "storage_upload s name bytes =
     (if name \<in> set (map fst (bucket s)) then (failed ''Duplicate'', s)
      else (answered (Some name) None, s\<lparr>bucket := bucket s @ [(name, bytes)]\<rparr>))"

text \<open>
  \<^verbatim>\<open>encodeURI\<close> keeps letters, digits and \<^verbatim>\<open>; / ? : @ & = + $ , # - _ . ! ~ * ' ( )\<close> and
  replaces every other character by the percent-escapes of its UTF-8 bytes: one byte
  below 128, two bytes for the other characters of the 8-bit range.
\<close>

definition hex_digit :: "nat \<Rightarrow> char" where
  "hex_digit n = (if n < 10 then char_of (48 + n) else char_of (55 + n))"

definition percent_encode :: "nat \<Rightarrow> string" where
  "percent_encode b = [CHR ''%'', hex_digit (b div 16), hex_digit (b mod 16)]"

definition uri_unescaped :: "char \<Rightarrow> bool" where
  "uri_unescaped c \<longleftrightarrow>
     c \<in> set ''ABCDEFGHIJKLMNOPQRSTUVWXYZabcdefghijklmnopqrstuvwxyz0123456789'' \<or>
     c \<in> set '';/?:@&=+$,#-_.!~*()'' \<or> c = CHR 0x27"

definition encodeURI_unit :: "char \<Rightarrow> string" where
  "encodeURI_unit c =
     (let n = of_char c
      in if uri_unescaped c then [c]
         else if n < 128 then percent_encode n
         else percent_encode (192 + n div 64) @ percent_encode (128 + n mod 64))"

definition encodeURI :: "string \<Rightarrow> string" where
  "encodeURI s = concat (map encodeURI_unit s)"

definition getPublicUrl :: "string \<Rightarrow> string \<Rightarrow> string" where
  "getPublicUrl supabase_url name =
     encodeURI (supabase_url @ ''/storage/v1/object/public/post-images/'' @ name)"

datatype upload_call = Storage_upload | Insert_post

definition upload_post ::
    "(upload_call \<Rightarrow> fault option) \<Rightarrow> string \<Rightarrow> store \<Rightarrow> string \<Rightarrow> jsval \<Rightarrow> multer_file option \<Rightarrow>
       nat \<Rightarrow> nat \<Rightarrow> response \<times> store" where
  "upload_post flt supabase_url s userId body_content req_file date_now now =
     (let content = (if truthy body_content then body_content else JStr [])
      in case req_file of
           None \<Rightarrow> (status_json 400 (Error ''Image file is required''), s)
         | Some f \<Rightarrow>
             (let name = fileName userId date_now f
              in case await_mut (flt Storage_upload) s (storage_upload s name (buffer f)) of
                   Inl e \<Rightarrow> (status_json 500 (Error ''Failed to create post with image''), s)
                 | Inr (up, s1) \<Rightarrow>
                     (case r_error up of
                        Some uploadError \<Rightarrow>
                          (status_json 500 (Error ''Failed to create post with image''), s1)
                      | None \<Rightarrow>
                          (let image_url = getPublicUrl supabase_url name
                           in case call_trim content of
                                Inl e \<Rightarrow>
                                  (status_json 500 (Error ''Failed to create post with image''), s1)
                              | Inr trimmed \<Rightarrow>
                                  respond_row 201 ''Failed to create post with image''
                                    (await_mut (flt Insert_post) s1
                                       (insert_post s1 userId trimmed (Some image_url) now))
                                    s1))))"

text \<open>
  \<^verbatim>\<open>DELETE /api/posts/:id\<close>: one delete filtered by id and owner. A delete that matches
  no row is answered without error.
\<close>

definition delete_own_post :: "store \<Rightarrow> nat \<Rightarrow> string \<Rightarrow> unit resp \<times> store" where
  "delete_own_post s postId userId =
     (answered None None,
      s\<lparr>posts := filter (\<lambda>p. \<not> (p_id p = postId \<and> p_user_id p = userId)) (posts s)\<rparr>)"

definition delete_post :: "fault option \<Rightarrow> store \<Rightarrow> nat \<Rightarrow> string \<Rightarrow> response \<times> store" where
  "delete_post flt s postId userId =
     (case await_mut flt s (delete_own_post s postId userId) of
        Inl e \<Rightarrow> (status_json 500 (Error ''Failed to delete post''), s)
      | Inr (r, s') \<Rightarrow>
          (case r_error r of
             Some e \<Rightarrow> (status_json 500 (Error ''Failed to delete post''), s')
           | None \<Rightarrow> (json Success, s')))"

text \<open>
  \<^verbatim>\<open>PUT /api/posts/:id\<close>: the ownership lookup (\<^verbatim>\<open>.single()\<close> on the rows of that id and
  owner), then the update of the rows of that id. \<open>upd_image_url = Some None\<close> is
  \<^verbatim>\<open>updates.image_url = null\<close>.
\<close>

record updates =
  upd_content :: "string option"
  upd_image_url :: "string option option"

definition apply_updates :: "updates \<Rightarrow> post \<Rightarrow> post" where
  "apply_updates u p =
     p\<lparr>p_content := (case upd_content u of None \<Rightarrow> p_content p | Some c \<Rightarrow> c),
       p_image_url := (case upd_image_url u of None \<Rightarrow> p_image_url p | Some i \<Rightarrow> i)\<rparr>"

definition update_by_id :: "store \<Rightarrow> nat \<Rightarrow> updates \<Rightarrow> post resp \<times> store" where
  "update_by_id s postId u =
     (let ps = map (\<lambda>p. if p_id p = postId then apply_updates u p else p) (posts s)
      in (single (filter (\<lambda>p. p_id p = postId) ps), s\<lparr>posts := ps\<rparr>))"

definition new_content :: "jsval \<Rightarrow> string + string option" where
  "new_content content =
     (if content \<noteq> JUndefined
      then (case call_trim content of Inl e \<Rightarrow> Inl e | Inr t \<Rightarrow> Inr (Some t))
      else Inr None)"

datatype update_call = Ownership_lookup | Update_row

definition update_post ::
    "(update_call \<Rightarrow> fault option) \<Rightarrow> store \<Rightarrow> nat \<Rightarrow> string \<Rightarrow> jsval \<Rightarrow> jsval \<Rightarrow> response \<times> store" where
  "update_post flt s postId userId content remove_image =
     (case await (flt Ownership_lookup)
             (single (filter (\<lambda>p. p_id p = postId \<and> p_user_id p = userId) (posts s))) of
        Inl e \<Rightarrow> (status_json 500 (Error ''Failed to update post''), s)
      | Inr looked \<Rightarrow>
          if r_error looked \<noteq> None \<or> r_data looked = None
          then (status_json 404 (Error ''Post not found or unauthorized''), s)
          else
            (case new_content content of
               Inl e \<Rightarrow> (status_json 500 (Error ''Failed to update post''), s)
             | Inr c \<Rightarrow>
                 respond_row 200 ''Failed to update post''
                   (await_mut (flt Update_row) s
                      (update_by_id s postId
                         \<lparr>upd_content = c,
                          upd_image_url = (if truthy remove_image then Some None else None)\<rparr>))
                   s))"


section \<open>Likes\<close>

text \<open>
  \<^verbatim>\<open>POST /api/posts/:id/like\<close>. The lookup selects the likes of the pair and takes
  \<^verbatim>\<open>.maybeSingle()\<close>; neither mutation inspects the error of its response.
\<close>

datatype toggle_call = Lookup_like | Delete_like | Insert_like

definition delete_like_by_id :: "store \<Rightarrow> nat \<Rightarrow> unit resp \<times> store" where
  "delete_like_by_id s i =
     (answered None None, s\<lparr>likes := filter (\<lambda>l. l_id l \<noteq> i) (likes s)\<rparr>)"

definition insert_like :: "store \<Rightarrow> string \<Rightarrow> nat \<Rightarrow> unit resp \<times> store" where
  "insert_like s userId postId =
     (answered None None,
      s\<lparr>likes := likes s @ [\<lparr>l_id = next_id s, l_post_id = postId, l_user_id = userId\<rparr>],
        next_id := Suc (next_id s)\<rparr>)"

definition toggle_like ::
    "(toggle_call \<Rightarrow> fault option) \<Rightarrow> store \<Rightarrow> nat \<Rightarrow> string \<Rightarrow> response \<times> store" where
  "toggle_like flt s postId userId =
     (case await (flt Lookup_like) (maybeSingle (likes_of_pair s postId userId)) of
        Inl e \<Rightarrow> (status_json 500 (Error ''Failed to toggle like''), s)
      | Inr looked \<Rightarrow>
          (case r_data looked of
             Some existing \<Rightarrow>
               (case await_mut (flt Delete_like) s (delete_like_by_id s (l_id existing)) of
                  Inl e \<Rightarrow> (status_json 500 (Error ''Failed to toggle like''), s)
                | Inr (r, s') \<Rightarrow> (json (Liked False), s'))
           | None \<Rightarrow>
               (case await_mut (flt Insert_like) s (insert_like s userId postId) of
                  Inl e \<Rightarrow> (status_json 500 (Error ''Failed to toggle like''), s)
                | Inr (r, s') \<Rightarrow> (json (Liked True), s'))))"


section \<open>Comments\<close>

text \<open>
  \<^verbatim>\<open>GET /api/posts/:id/comments\<close>: the comments of the post with their profiles,
  \<^verbatim>\<open>.order('created_at', { ascending: true })\<close>.
\<close>

definition join_comment :: "store \<Rightarrow> comment \<Rightarrow> comment_row" where
  "join_comment s c =
     \<lparr>cr_id = c_id c, cr_content = c_content c, cr_created_at = c_created_at c,
      cr_user_id = c_user_id c, cr_profiles = map_of (profile_rows s) (c_user_id c)\<rparr>"

definition select_comments :: "store \<Rightarrow> nat \<Rightarrow> comment_row list" where
  "select_comments s postId =
     map (join_comment s) (sort_key c_created_at (comments_of_post s postId))"

definition comment_view_of :: "comment_row \<Rightarrow> comment_view" where
  "comment_view_of c =
     \<lparr>cr_id = cr_id c, cr_content = cr_content c, cr_created_at = cr_created_at c,
      cr_user_id = cr_user_id c, cr_profiles = cr_profiles c,
      cv_author = author_of (cr_profiles c), cv_avatar_url = avatar_of (cr_profiles c)\<rparr>"

definition get_comments :: "fault option \<Rightarrow> store \<Rightarrow> nat \<Rightarrow> response" where
  "get_comments flt s postId =
     (case await flt (answered (Some (select_comments s postId)) None) of
        Inl e \<Rightarrow> status_json 500 (Error ''Failed to fetch comments'')
      | Inr r \<Rightarrow>
          (case r_error r of
             Some e \<Rightarrow> status_json 500 (Error ''Failed to fetch comments'')
           | None \<Rightarrow>
               (case r_data r of
                  None \<Rightarrow> status_json 500 (Error ''Failed to fetch comments'')
                | Some rows \<Rightarrow> json (Comments (map comment_view_of rows)))))"


section \<open>Calls without faults, and example states\<close>

definition no_fault :: "'c \<Rightarrow> fault option" where
  "no_fault c = None"


definition fault_at :: "'c \<Rightarrow> fault \<Rightarrow> 'c \<Rightarrow> fault option" where
  "fault_at c f c' = (if c' = c then Some f else None)"

definition empty_store :: store where
  "empty_store =
     \<lparr>posts = [], likes = [], comments = [], profile_rows = [], bucket = [], next_id = 0\<rparr>"

definition alice_post :: post where
  "alice_post = \<lparr>p_id = 1, p_content = ''hello'', p_image_url = None, p_created_at = 10,
                  p_user_id = ''alice''\<rparr>"

definition demo_store :: store where
  "demo_store =
     \<lparr>posts = [alice_post],
      likes = [\<lparr>l_id = 2, l_post_id = 1, l_user_id = ''bob''\<rparr>],
      comments = [\<lparr>c_id = 3, c_content = ''nice'', c_created_at = 12, c_user_id = ''bob'',
                   c_post_id = 1\<rparr>],
      profile_rows = [(''alice'', \<lparr>pr_username = Some ''Alice'', pr_avatar_url = None\<rparr>)],
      bucket = [],
      next_id = 4\<rparr>"

definition timeline_store :: store where
  "timeline_store =
     \<lparr>posts = [\<lparr>p_id = 11, p_content = ''first'', p_image_url = None, p_created_at = 10,
                 p_user_id = ''alice''\<rparr>,
               \<lparr>p_id = 12, p_content = ''second'', p_image_url = None, p_created_at = 20,
                 p_user_id = ''bob''\<rparr>],
      likes = [],
      comments = [\<lparr>c_id = 14, c_content = ''later'', c_created_at = 31, c_user_id = ''bob'',
                   c_post_id = 11\<rparr>,
                  \<lparr>c_id = 13, c_content = ''sooner'', c_created_at = 30, c_user_id = ''alice'',
                   c_post_id = 11\<rparr>],
      profile_rows = [],
      bucket = [],
      next_id = 15\<rparr>"

definition duplicate_store :: store where
  "duplicate_store =
     \<lparr>posts = [],
      likes = [\<lparr>l_id = 0, l_post_id = 1, l_user_id = ''bob''\<rparr>,
               \<lparr>l_id = 1, l_post_id = 1, l_user_id = ''bob''\<rparr>],
      comments = [], profile_rows = [], bucket = [], next_id = 2\<rparr>"

definition cat_jpg :: multer_file where
  "cat_jpg = \<lparr>originalname = ''cat.jpg'', mimetype = ''image/jpeg'', buffer = ''JFIF''\<rparr>"


section \<open>Notions the properties are stated with\<close>

text \<open>The sequence a feed response carries.\<close>

definition returned_posts :: "response \<Rightarrow> enriched_post list" where
  "returned_posts r = (case payload r of Posts es \<Rightarrow> es | _ \<Rightarrow> [])"

text \<open>The row an enriched post was made from.\<close>

definition row_of :: "enriched_post \<Rightarrow> post_row" where
  "row_of e =
     \<lparr>p_id = p_id e, p_content = p_content e, p_image_url = p_image_url e,
      p_created_at = p_created_at e, p_user_id = p_user_id e, profiles = profiles e\<rparr>"

text \<open>A call whose promise rejects; a post one of whose lookups rejects.\<close>

definition rejects :: "fault option \<Rightarrow> bool" where
  "rejects f = (case f of Some (Rejected e) \<Rightarrow> True | _ \<Rightarrow> False)"

definition lookup_rejects :: "(feed_call \<Rightarrow> fault option) \<Rightarrow> string option \<Rightarrow> nat \<Rightarrow> bool" where
  "lookup_rejects flt viewer postId \<longleftrightarrow>
     rejects (flt (Like_count postId)) \<or> rejects (flt (Comment_count postId)) \<or>
     (viewer \<noteq> None \<and> rejects (flt (My_like postId)))"

text \<open>The sequence a comment-list response carries.\<close>

definition returned_comments :: "response \<Rightarrow> comment_view list" where
  "returned_comments r = (case payload r of Comments cs \<Rightarrow> cs | _ \<Rightarrow> [])"

text \<open>The posts with a given id that a given user owns.\<close>

definition owned_rows :: "store \<Rightarrow> nat \<Rightarrow> string \<Rightarrow> post list" where
  "owned_rows s postId userId =
     filter (\<lambda>p. p_id p = postId \<and> p_user_id p = userId) (posts s)"

text \<open>What the upload handler stores as content: the trimmed string, or nothing.\<close>

definition content_or_empty :: "jsval \<Rightarrow> string" where
  "content_or_empty v = (case v of JStr c \<Rightarrow> trim c | _ \<Rightarrow> [])"


section \<open>Awaited calls and \<^verbatim>\<open>Promise.all\<close>\<close>

lemma promise_all_map_Inr: "promise_all (map Inr vs) = Inr vs"
  by (induction vs) auto

lemma promise_all_Inr: "promise_all ps = Inr vs \<longleftrightarrow> ps = map Inr vs"
proof
  show "promise_all ps = Inr vs \<Longrightarrow> ps = map Inr vs"
  proof (induction ps arbitrary: vs)
    case Nil
    then show ?case by simp
  next
    case (Cons x xs)
    then show ?case
      by (cases x; cases "promise_all xs") auto
  qed
qed (simp add: promise_all_map_Inr)

lemma promise_all_Inl: "(\<exists>e. promise_all ps = Inl e) \<longleftrightarrow> (\<exists>e. Inl e \<in> set ps)"
  by (induction ps rule: promise_all.induct) (auto split: sum.splits)

lemma likedByMe_Inr:
  "likedByMe flt s viewer i = Inr b \<Longrightarrow>
     b = (\<exists>u. viewer = Some u \<and> flt (My_like i) = None \<and> length (likes_of_pair s i u) = 1)"
  apply (cases viewer)
   apply (simp add: likedByMe_def)
  apply (cases "flt (My_like i)")
  subgoal for u
    by (cases "likes_of_pair s i u" rule: maybeSingle.cases)
       (auto simp: likedByMe_def await_def answered_def failed_def)
  subgoal for u f
    by (cases f) (auto simp: likedByMe_def await_def failed_def)
  done

lemma likedByMe_Inl:
  "(\<exists>e. likedByMe flt s viewer i = Inl e) \<longleftrightarrow> viewer \<noteq> None \<and> rejects (flt (My_like i))"
  by (auto simp: likedByMe_def await_def rejects_def split: option.splits fault.splits sum.splits)

lemma count_await:
  "await f (count_exact rs) = Inr r \<Longrightarrow> or_zero (r_count r) = (if f = None then length rs else 0)"
  by (auto simp: await_def count_exact_def answered_def failed_def or_zero_def
           split: option.splits fault.splits)

lemma await_Inl: "(\<exists>e. await f r = Inl e) \<longleftrightarrow> rejects f"
  by (auto simp: await_def rejects_def split: option.splits fault.splits)

lemma enrich_Inr:
  assumes "enrich flt s viewer p = Inr e"
  shows "row_of e = p"
    and "author e = author_of (profiles p)"
    and "avatar_url e = avatar_of (profiles p)"
    and "like_count e = (if flt (Like_count (p_id p)) = None then length (likes_of_post s (p_id p)) else 0)"
    and "comment_count e = (if flt (Comment_count (p_id p)) = None then length (comments_of_post s (p_id p)) else 0)"
    and "liked_by_me e = (\<exists>u. viewer = Some u \<and> flt (My_like (p_id p)) = None \<and> length (likes_of_pair s (p_id p) u) = 1)"
  using assms
  by (auto simp: enrich_def row_of_def split: sum.splits dest!: count_await likedByMe_Inr)

lemma enrich_Inl:
  "(\<exists>e. enrich flt s viewer p = Inl e) \<longleftrightarrow> lookup_rejects flt viewer (p_id p)"
  by (auto simp: enrich_def lookup_rejects_def await_def rejects_def likedByMe_def
           split: sum.splits option.splits fault.splits)


section \<open>The feed handler\<close>

lemma get_posts_unfold:
  "get_posts flt s q =
     (if flt Posts_query \<noteq> None then status_json 500 (Error ''Failed to fetch posts'')
      else case promise_all (map (enrich flt s (currentUserId q)) (select_posts s)) of
             Inl e \<Rightarrow> status_json 500 (Error ''Failed to fetch posts'')
           | Inr enriched \<Rightarrow> json (Posts enriched))"
  by (auto simp: get_posts_def await_def answered_def failed_def
           split: option.splits fault.splits)

lemma get_posts_json:
  "get_posts flt s q = json (Posts es) \<longleftrightarrow>
     flt Posts_query = None \<and> map (enrich flt s (currentUserId q)) (select_posts s) = map Inr es"
proof (cases "promise_all (map (enrich flt s (currentUserId q)) (select_posts s))")
  case (Inl e)
  then have "map (enrich flt s (currentUserId q)) (select_posts s) \<noteq> map Inr es"
    using promise_all_map_Inr [of es] by auto
  with Inl show ?thesis
    by (simp add: get_posts_unfold json_def status_json_def)
next
  case (Inr vs)
  then have "map (enrich flt s (currentUserId q)) (select_posts s) = map Inr vs"
    by (simp add: promise_all_Inr)
  with Inr show ?thesis
    by (auto simp: get_posts_unfold json_def status_json_def)
qed

lemma get_posts_enriched:
  assumes "get_posts flt s q = json (Posts es)" and "e \<in> set es"
  shows "\<exists>p \<in> set (select_posts s). enrich flt s (currentUserId q) p = Inr e"
proof -
  from assms(1) have m: "map (enrich flt s (currentUserId q)) (select_posts s) = map Inr es"
    by (simp add: get_posts_json)
  from assms(2) have "Inr e \<in> set (map Inr es)" by simp
  with m have "Inr e \<in> set (map (enrich flt s (currentUserId q)) (select_posts s))" by simp
  then show ?thesis by auto
qed

lemma Inl_in_map: "(\<exists>e. Inl e \<in> set (map f xs)) \<longleftrightarrow> (\<exists>x \<in> set xs. \<exists>e. f x = Inl e)"
  by (induction xs) (auto dest: sym)

lemma get_posts_status:
  "status (get_posts flt s q) =
     (if flt Posts_query \<noteq> None \<or>
         (\<exists>p \<in> set (select_posts s). lookup_rejects flt (currentUserId q) (p_id p))
      then 500 else 200)"
proof -
  let ?ps = "map (enrich flt s (currentUserId q)) (select_posts s)"
  have "(\<exists>e. Inl e \<in> set ?ps) \<longleftrightarrow>
        (\<exists>p \<in> set (select_posts s). \<exists>e. enrich flt s (currentUserId q) p = Inl e)"
    by (rule Inl_in_map)
  then have r: "(\<exists>e. promise_all ?ps = Inl e) \<longleftrightarrow>
           (\<exists>p \<in> set (select_posts s). lookup_rejects flt (currentUserId q) (p_id p))"
    by (simp only: promise_all_Inl enrich_Inl)
  show ?thesis
  proof (cases "promise_all ?ps")
    case (Inl e)
    then have "\<exists>e. promise_all ?ps = Inl e" by blast
    with r Inl show ?thesis
      by (simp add: get_posts_unfold json_def status_json_def)
  next
    case (Inr vs)
    then have "\<not> (\<exists>e. promise_all ?ps = Inl e)" by simp
    with r Inr show ?thesis
      by (simp add: get_posts_unfold json_def status_json_def)
  qed
qed

lemma select_posts_p_id: "p_id ` set (select_posts s) = p_id ` set (posts s)"
  by (auto simp: select_posts_def join_profile_def image_iff)

lemma get_posts_demo:
  "get_posts no_fault demo_store q =
     json (Posts [\<lparr>p_id = 1, p_content = ''hello'', p_image_url = None, p_created_at = 10,
                   p_user_id = ''alice'',
                   profiles = Some \<lparr>pr_username = Some ''Alice'', pr_avatar_url = None\<rparr>,
                   author = ''Alice'', avatar_url = None, like_count = 1, comment_count = 1,
                   liked_by_me = (q ''user_id'' = Some ''bob'')\<rparr>])"
  apply (simp add: get_posts_def no_fault_def await_def answered_def select_posts_def demo_store_def alice_post_def join_profile_def enrich_def count_exact_def likes_of_post_def comments_of_post_def or_zero_def author_of_def avatar_of_def likedByMe_def currentUserId_def likes_of_pair_def split: option.splits)
  done


lemma get_posts_fault_demo:
  "get_posts (fault_at c (Error_response m)) demo_store q =
     json (Posts [\<lparr>p_id = 1, p_content = ''hello'', p_image_url = None, p_created_at = 10,
                   p_user_id = ''alice'',
                   profiles = Some \<lparr>pr_username = Some ''Alice'', pr_avatar_url = None\<rparr>,
                   author = ''Alice'', avatar_url = None,
                   like_count = (if c = Like_count 1 then 0 else 1),
                   comment_count = (if c = Comment_count 1 then 0 else 1),
                   liked_by_me = (q ''user_id'' = Some ''bob'' \<and> c \<noteq> My_like 1)\<rparr>])"
  if "c \<noteq> Posts_query"
  using that
  by (simp add: get_posts_def fault_at_def await_def answered_def failed_def select_posts_def demo_store_def alice_post_def join_profile_def enrich_def count_exact_def likes_of_post_def comments_of_post_def or_zero_def author_of_def avatar_of_def likedByMe_def currentUserId_def likes_of_pair_def split: option.splits)

lemma get_posts_500:
  "status (get_posts flt s q) \<noteq> 200 \<Longrightarrow>
     get_posts flt s q = status_json 500 (Error ''Failed to fetch posts'')"
  by (auto simp: get_posts_unfold json_def split: sum.splits if_splits)


section \<open>The like toggle\<close>

lemma likes_of_pair_insert:
  "likes_of_pair (snd (insert_like s u p)) p u =
     likes_of_pair s p u @ [\<lparr>l_id = next_id s, l_post_id = p, l_user_id = u\<rparr>]"
  by (simp add: likes_of_pair_def insert_like_def)

lemma toggle_like_absent:
  "likes_of_pair s p u = [] \<Longrightarrow> flt Lookup_like = None \<Longrightarrow> flt Insert_like = None \<Longrightarrow>
     toggle_like flt s p u = (json (Liked True), snd (insert_like s u p))"
  by (simp add: toggle_like_def await_def await_mut_def answered_def insert_like_def)

lemma toggle_like_present:
  "likes_of_pair s p u = [l] \<Longrightarrow> flt Lookup_like = None \<Longrightarrow> flt Delete_like = None \<Longrightarrow>
     toggle_like flt s p u = (json (Liked False), snd (delete_like_by_id s (l_id l)))"
  by (simp add: toggle_like_def await_def await_mut_def answered_def delete_like_by_id_def)

lemma filter_id_remove1:
  "distinct (map l_id ls) \<Longrightarrow> l \<in> set ls \<Longrightarrow>
     filter (\<lambda>x. l_id x \<noteq> l_id l) ls = remove1 l ls"
proof (induction ls)
  case Nil
  then show ?case by simp
next
  case (Cons a ls)
  show ?case
  proof (cases "a = l")
    case True
    with Cons.prems(1) have "\<forall>x \<in> set ls. l_id x \<noteq> l_id l" by (auto simp: image_iff)
    then have "filter (\<lambda>x. l_id x \<noteq> l_id l) ls = ls" by (simp add: filter_id_conv)
    with True show ?thesis by simp
  next
    case False
    with Cons.prems have "l \<in> set ls" and "l_id a \<noteq> l_id l" by auto
    with Cons.IH Cons.prems(1) False show ?thesis by simp
  qed
qed

lemma likes_of_pair_single_mem:
  "likes_of_pair s p u = [l] \<Longrightarrow> l \<in> set (likes s)"
proof -
  assume "likes_of_pair s p u = [l]"
  then have "l \<in> set (filter (\<lambda>l. l_post_id l = p \<and> l_user_id l = u) (likes s))"
    by (simp add: likes_of_pair_def)
  then show ?thesis by simp
qed

lemma toggle_like_cases:
  "likes (snd (toggle_like flt s p u)) = likes s \<or>
   likes (snd (toggle_like flt s p u)) =
     likes s @ [\<lparr>l_id = next_id s, l_post_id = p, l_user_id = u\<rparr>] \<or>
   (\<exists>l. likes_of_pair s p u = [l] \<and> flt Lookup_like = None \<and> flt Delete_like = None \<and>
        fst (toggle_like flt s p u) = json (Liked False) \<and>
        likes (snd (toggle_like flt s p u)) = filter (\<lambda>x. l_id x \<noteq> l_id l) (likes s))"
proof (cases "flt Lookup_like")
  case (Some f)
  then show ?thesis
    by (cases f; cases "flt Insert_like")
       (auto simp: toggle_like_def await_def await_mut_def failed_def insert_like_def
             split: fault.splits)
next
  case None
  show ?thesis
  proof (cases "likes_of_pair s p u" rule: maybeSingle.cases)
    case 1
    with None show ?thesis
      by (cases "flt Insert_like")
         (auto simp: toggle_like_def await_def await_mut_def answered_def insert_like_def
               split: fault.splits)
  next
    case (2 l)
    with None show ?thesis
      by (cases "flt Delete_like")
         (auto simp: toggle_like_def await_def await_mut_def answered_def delete_like_by_id_def
               split: fault.splits)
  next
    case (3 a b cs)
    with None show ?thesis
      by (cases "flt Insert_like")
         (auto simp: toggle_like_def await_def await_mut_def failed_def insert_like_def
               split: fault.splits)
  qed
qed


section \<open>Order of the reads\<close>

lemma distinct_map_sort_key:
  "distinct (map f (sort_key f xs)) \<longleftrightarrow> distinct (map f xs)"
  by (simp add: distinct_map)

lemma select_posts_created_at:
  "map p_created_at (select_posts s) =
     rev (map p_created_at (sort_key p_created_at (posts s)))"
  by (simp add: select_posts_def join_profile_def comp_def rev_map)

lemma get_posts_rows:
  assumes "get_posts flt s q = json (Posts es)"
  shows "map row_of es = select_posts s"
proof -
  from assms have m: "map (enrich flt s (currentUserId q)) (select_posts s) = map Inr es"
    by (simp add: get_posts_json)
  then have len: "length es = length (select_posts s)"
    by (metis length_map)
  show ?thesis
  proof (rule nth_equalityI)
    show "length (map row_of es) = length (select_posts s)" using len by simp
  next
    fix i assume "i < length (map row_of es)"
    then have i: "i < length es" by simp
    with len have "enrich flt s (currentUserId q) (select_posts s ! i) = Inr (es ! i)"
      using m by (metis nth_map)
    from enrich_Inr(1) [OF this] i show "map row_of es ! i = select_posts s ! i"
      by simp
  qed
qed

lemma row_of_created_at: "p_created_at (row_of e) = p_created_at e"
  by (simp add: row_of_def)

lemma get_comments_json:
  "get_comments flt s postId = json (Comments cs) \<longleftrightarrow>
     flt = None \<and> cs = map comment_view_of (select_comments s postId)"
  by (auto simp: get_comments_def await_def answered_def failed_def json_def status_json_def
           split: option.splits fault.splits)

lemma select_comments_created_at:
  "map cr_created_at (map comment_view_of (select_comments s postId)) =
     map c_created_at (sort_key c_created_at (comments_of_post s postId))"
  by (simp add: select_comments_def comment_view_of_def join_comment_def comp_def)

lemma get_posts_200:
  "status (get_posts flt s q) = 200 \<Longrightarrow>
     get_posts flt s q = json (Posts (returned_posts (get_posts flt s q)))"
  by (auto simp: get_posts_unfold returned_posts_def json_def status_json_def
           split: sum.splits if_splits)

lemma get_comments_200:
  "status (get_comments flt s postId) = 200 \<Longrightarrow>
     get_comments flt s postId = json (Comments (returned_comments (get_comments flt s postId)))"
  by (auto simp: get_comments_def returned_comments_def await_def answered_def failed_def
                 json_def status_json_def
           split: option.splits fault.splits)

lemma get_posts_timeline:
  "map p_id (returned_posts (get_posts no_fault timeline_store Map.empty)) = [12, 11] \<and>
   map p_created_at (returned_posts (get_posts no_fault timeline_store Map.empty)) = [20, 10] \<and>
   status (get_posts no_fault timeline_store Map.empty) = 200"
  by (simp add: get_posts_unfold no_fault_def select_posts_def timeline_store_def
        join_profile_def enrich_def await_def count_exact_def answered_def likedByMe_def
        currentUserId_def returned_posts_def json_def)

lemma get_comments_timeline:
  "map cr_id (returned_comments (get_comments None timeline_store 11)) = [13, 14] \<and>
   map cr_created_at (returned_comments (get_comments None timeline_store 11)) = [30, 31] \<and>
   status (get_comments None timeline_store 11) = 200"
  by (simp add: get_comments_def select_comments_def comments_of_post_def timeline_store_def
        join_comment_def comment_view_of_def await_def answered_def json_def
        returned_comments_def)


section \<open>The post handlers\<close>

lemma delete_own_post_none:
  "owned_rows s postId userId = [] \<Longrightarrow> snd (delete_own_post s postId userId) = s"
proof -
  assume "owned_rows s postId userId = []"
  then have "filter (\<lambda>p. \<not> (p_id p = postId \<and> p_user_id p = userId)) (posts s) = posts s"
    by (auto simp: owned_rows_def filter_empty_conv filter_id_conv)
  then show ?thesis by (simp add: delete_own_post_def)
qed

lemma delete_post_unfold:
  "delete_post flt s postId userId =
     (if flt = None then (json Success, snd (delete_own_post s postId userId))
      else (status_json 500 (Error ''Failed to delete post''), s))"
  by (auto simp: delete_post_def await_mut_def delete_own_post_def answered_def failed_def
           split: option.splits fault.splits)

lemma not_owner_no_rows:
  assumes "distinct (map p_id (posts s))" "p \<in> set (posts s)" "p_user_id p \<noteq> userId"
  shows "owned_rows s (p_id p) userId = []"
proof -
  have "\<And>x. x \<in> set (posts s) \<Longrightarrow> p_id x = p_id p \<Longrightarrow> x = p"
    using assms(1,2) by (meson distinct_map inj_onD)
  with assms(3) show ?thesis
    by (auto simp: owned_rows_def filter_empty_conv)
qed

lemma update_post_not_found:
  assumes "owned_rows s postId userId = []"
  shows "update_post flt s postId userId content remove_image =
           ((if rejects (flt Ownership_lookup)
             then status_json 500 (Error ''Failed to update post'')
             else status_json 404 (Error ''Post not found or unauthorized'')), s)"
  using assms
  by (auto simp: update_post_def owned_rows_def await_def rejects_def failed_def
           split: option.splits fault.splits)

lemma trim_idem: "trim (trim s) = trim s"
proof -
  let ?a = "dropWhile is_white_space s"
  let ?b = "dropWhile is_white_space (rev ?a)"
  have 1: "dropWhile is_white_space (rev ?b) = rev ?b"
  proof (cases "?b = []")
    case True
    show ?thesis by (simp only: True rev.simps(1) dropWhile.simps(1))
  next
    case False
    then have ne: "?a \<noteq> []" by (metis dropWhile.simps(1) rev.simps(1))
    have "rev ?a = takeWhile is_white_space (rev ?a) @ ?b" by simp
    then have "?a = rev ?b @ rev (takeWhile is_white_space (rev ?a))"
      by (metis rev_append rev_rev_ident)
    with False have "hd (rev ?b) = hd ?a" by (metis hd_append2 rev_is_Nil_conv)
    moreover have "\<not> is_white_space (hd ?a)" using ne by (rule hd_dropWhile)
    ultimately have "\<not> is_white_space (hd (rev ?b))" by simp
    with False show ?thesis by (cases "rev ?b") auto
  qed
  have 2: "dropWhile is_white_space ?b = ?b"
    by (rule dropWhile_idem)
  show ?thesis
    unfolding trim_def by (simp only: 1 rev_rev_ident 2)
qed

lemma respond_row_insert:
  "respond_row code msg (await_mut flt s (insert_post s userId c img now)) s = (r, s') \<Longrightarrow>
     (status r = 500 \<and> s' = s) \<or>
     (status r = code \<and> flt = None \<and>
      s' = s\<lparr>posts := posts s @ [\<lparr>p_id = next_id s, p_content = c, p_image_url = img,
                                   p_created_at = now, p_user_id = userId\<rparr>],
             next_id := Suc (next_id s)\<rparr>)"
  by (auto simp: respond_row_def await_mut_def insert_post_def Let_def answered_def failed_def
                 status_json_def
           split: option.splits fault.splits)

lemma create_post_posts:
  "posts (snd (create_post flt s userId content now)) = posts s \<or>
   (\<exists>c. content = JStr c \<and> trim c \<noteq> [] \<and> flt = None \<and>
        posts (snd (create_post flt s userId content now)) =
          posts s @ [\<lparr>p_id = next_id s, p_content = trim c, p_image_url = None,
                      p_created_at = now, p_user_id = userId\<rparr>])"
proof (cases content)
  case (JStr c)
  show ?thesis
  proof (cases "c \<noteq> [] \<and> trim c \<noteq> []")
    case True
    obtain r s' where e: "respond_row 201 ''Failed to create post''
        (await_mut flt s (insert_post s userId (trim c) None now)) s = (r, s')"
      by (cases "respond_row 201 ''Failed to create post''
        (await_mut flt s (insert_post s userId (trim c) None now)) s") auto
    from respond_row_insert [OF e] True JStr e show ?thesis
      by (auto simp: create_post_def)
  next
    case False
    with JStr show ?thesis by (auto simp: create_post_def)
  qed
qed (auto simp: create_post_def)

lemma upload_post_posts:
  "posts (snd (upload_post flt url s userId content req_file date_now now)) = posts s \<or>
   (\<exists>f. req_file = Some f \<and>
      posts (snd (upload_post flt url s userId content req_file date_now now)) =
          posts s @ [\<lparr>p_id = next_id s, p_content = content_or_empty content,
                      p_image_url = Some (getPublicUrl url (fileName userId date_now f)),
                      p_created_at = now, p_user_id = userId\<rparr>])"
proof (cases req_file)
  case None
  then show ?thesis by (simp add: upload_post_def)
next
  case (Some f)
  let ?n = "fileName userId date_now f"
  let ?c = "if truthy content then content else JStr []"
  show ?thesis
  proof (cases "await_mut (flt Storage_upload) s (storage_upload s ?n (buffer f))")
    case (Inl e)
    with Some show ?thesis by (simp add: upload_post_def fileName_def)
  next
    case (Inr us)
    obtain up s1 where us: "us = (up, s1)" by (cases us)
    have s1: "posts s1 = posts s" "next_id s1 = next_id s"
      using Inr us
      by (auto simp: await_mut_def storage_upload_def split: option.splits fault.splits if_splits)
    show ?thesis
    proof (cases "r_error up")
      case (Some a)
      with \<open>req_file = Some f\<close> Inr us s1 show ?thesis
        by (simp add: upload_post_def fileName_def)
    next
      case None
      show ?thesis
      proof (cases "call_trim ?c")
        case (Inl e)
        with \<open>req_file = Some f\<close> Inr us s1 None show ?thesis
          by (simp add: upload_post_def fileName_def Let_def)
      next
        case r: (Inr t)
        have t: "t = content_or_empty content"
          using r by (cases content) (auto simp: content_or_empty_def trim_def split: if_splits)
        obtain rr s' where e: "respond_row 201 ''Failed to create post with image''
           (await_mut (flt Insert_post) s1
              (insert_post s1 userId t (Some (getPublicUrl url ?n)) now)) s1 = (rr, s')"
          by (cases "respond_row 201 ''Failed to create post with image''
           (await_mut (flt Insert_post) s1
              (insert_post s1 userId t (Some (getPublicUrl url ?n)) now)) s1") auto
        have u: "upload_post flt url s userId content req_file date_now now = (rr, s')"
          using \<open>req_file = Some f\<close> Inr us None r e
          by (simp add: upload_post_def fileName_def Let_def)
        from respond_row_insert [OF e] s1 t \<open>req_file = Some f\<close> show ?thesis
          unfolding u by auto
      qed
    qed
  qed
qed

lemma trim_hello: "trim ''  hello '' = ''hello''"
  by (simp add: trim_def is_white_space_def)

lemma create_post_hello:
  "create_post None demo_store ''bob'' (JStr ''  hello '') 20 =
     (status_json 201 (Post_row (Some \<lparr>p_id = 4, p_content = ''hello'', p_image_url = None,
                                       p_created_at = 20, p_user_id = ''bob''\<rparr>)),
      demo_store\<lparr>posts := [alice_post, \<lparr>p_id = 4, p_content = ''hello'', p_image_url = None,
                                       p_created_at = 20, p_user_id = ''bob''\<rparr>],
                 next_id := 5\<rparr>)"
  by (simp add: create_post_def trim_hello respond_row_def await_mut_def insert_post_def
                answered_def Let_def)
     (simp add: demo_store_def)


section \<open>Properties of the feed\<close>

text \<open>
  C1, as the handler has it. In every sequence the feed returns, a post's \<open>like_count\<close> is
  the number of Like rows of that post in the store read when its like-count lookup
  returned without error, and 0 when that lookup returned an error; \<open>comment_count\<close>
  likewise, with the Comment rows and the comment-count lookup.
\<close>

theorem feed_counts:
  assumes "get_posts flt s q = json (Posts es)"
  shows "\<forall>e \<in> set es.
           like_count e =
             (if flt (Like_count (p_id e)) = None then length (likes_of_post s (p_id e)) else 0) \<and>
           comment_count e =
             (if flt (Comment_count (p_id e)) = None
              then length (comments_of_post s (p_id e)) else 0)"
proof
  fix e assume "e \<in> set es"
  with assms obtain p where p: "enrich flt s (currentUserId q) p = Inr e"
    using get_posts_enriched by blast
  from enrich_Inr(1) [OF p] have "p_id p = p_id e" by (auto simp: row_of_def)
  with enrich_Inr(4,5) [OF p]
  show "like_count e =
             (if flt (Like_count (p_id e)) = None then length (likes_of_post s (p_id e)) else 0) \<and>
           comment_count e =
             (if flt (Comment_count (p_id e)) = None
              then length (comments_of_post s (p_id e)) else 0)"
    by simp
qed

text \<open>A read of the example store without faults: one like and one comment, both counted.\<close>

theorem feed_counts_witness:
  "status (get_posts no_fault demo_store Map.empty) = 200 \<and>
   map p_id (returned_posts (get_posts no_fault demo_store Map.empty)) = [1] \<and>
   map like_count (returned_posts (get_posts no_fault demo_store Map.empty)) =
     [length (likes_of_post demo_store 1)] \<and>
   map comment_count (returned_posts (get_posts no_fault demo_store Map.empty)) =
     [length (comments_of_post demo_store 1)] \<and>
   length (likes_of_post demo_store 1) = 1 \<and>
   length (comments_of_post demo_store 1) = 1"
proof -
  from feed_counts [OF get_posts_demo [of Map.empty]]
  show ?thesis
    by (simp add: get_posts_demo returned_posts_def json_def no_fault_def)
qed

text \<open>
  C1 as stated fails: the like-count lookup of post 1 resolves to an error, the feed still
  answers 200, and the post is returned with \<open>like_count = 0\<close> although one Like row
  has its id.
\<close>

theorem feed_counts_counterexample:
  "status (get_posts (fault_at (Like_count 1) (Error_response ''timeout'')) demo_store Map.empty)
     = 200 \<and>
   map p_id (returned_posts
     (get_posts (fault_at (Like_count 1) (Error_response ''timeout'')) demo_store Map.empty)) = [1] \<and>
   map like_count (returned_posts
     (get_posts (fault_at (Like_count 1) (Error_response ''timeout'')) demo_store Map.empty)) = [0] \<and>
   length (likes_of_post demo_store 1) = 1"
  by (simp add: get_posts_fault_demo returned_posts_def json_def)
     (simp add: likes_of_post_def demo_store_def)

text \<open>
  C2, as the handler has it. The viewer id is read from the query parameter
  \<^verbatim>\<open>user_id\<close>. In every sequence the feed returns, \<open>liked_by_me\<close> of a post is true iff
  that parameter carries a non-empty id, the lookup of the viewer's like of the post
  returned without error, and exactly one Like row exists for the post and that id. It
  is false in every other case, in particular when no viewer id is supplied.
\<close>

theorem feed_liked_by_me:
  assumes "get_posts flt s q = json (Posts es)"
  shows "\<forall>e \<in> set es.
           liked_by_me e \<longleftrightarrow>
             (\<exists>u. q ''user_id'' = Some u \<and> u \<noteq> [] \<and> flt (My_like (p_id e)) = None \<and>
                  length (likes_of_pair s (p_id e) u) = 1)"
proof
  fix e assume "e \<in> set es"
  with assms obtain p where p: "enrich flt s (currentUserId q) p = Inr e"
    using get_posts_enriched by blast
  from enrich_Inr(1) [OF p] have i: "p_id p = p_id e" by (auto simp: row_of_def)
  have v: "\<And>u. currentUserId q = Some u \<longleftrightarrow> q ''user_id'' = Some u \<and> u \<noteq> []"
    by (auto simp: currentUserId_def split: option.splits)
  from enrich_Inr(6) [OF p]
  show "liked_by_me e \<longleftrightarrow>
             (\<exists>u. q ''user_id'' = Some u \<and> u \<noteq> [] \<and> flt (My_like (p_id e)) = None \<and>
                  length (likes_of_pair s (p_id e) u) = 1)"
    unfolding i v by blast
qed

text \<open>Bob has liked post 1: read as bob the flag is true, read without viewer it is false.\<close>

theorem feed_liked_by_me_witness:
  "status (get_posts no_fault demo_store [''user_id'' \<mapsto> ''bob'']) = 200 \<and>
   map liked_by_me (returned_posts (get_posts no_fault demo_store [''user_id'' \<mapsto> ''bob''])) = [True] \<and>
   length (likes_of_pair demo_store 1 ''bob'') = 1 \<and>
   map liked_by_me (returned_posts (get_posts no_fault demo_store Map.empty)) = [False]"
proof -
  from feed_liked_by_me [OF get_posts_demo [of "[''user_id'' \<mapsto> ''bob'']"]]
       feed_liked_by_me [OF get_posts_demo [of "Map.empty"]]
  show ?thesis
    by (simp add: get_posts_demo returned_posts_def json_def no_fault_def)
qed

text \<open>
  C2 as stated fails. Bob has liked post 1. A read with \<^verbatim>\<open>viewer_id=bob\<close> returns the post
  with \<open>liked_by_me\<close> false, since the handler reads \<^verbatim>\<open>req.query.user_id\<close>. A read that
  carries bob's id under both names, and whose lookup of the viewer's like resolves to an
  error, returns it with \<open>liked_by_me\<close> false as well.
\<close>

theorem feed_liked_by_me_counterexample:
  "likes_of_pair demo_store 1 ''bob'' = [\<lparr>l_id = 2, l_post_id = 1, l_user_id = ''bob''\<rparr>] \<and>
   [''viewer_id'' \<mapsto> ''bob''] ''viewer_id'' = Some ''bob'' \<and>
   status (get_posts no_fault demo_store [''viewer_id'' \<mapsto> ''bob'']) = 200 \<and>
   map p_id (returned_posts (get_posts no_fault demo_store [''viewer_id'' \<mapsto> ''bob''])) = [1] \<and>
   map liked_by_me (returned_posts (get_posts no_fault demo_store [''viewer_id'' \<mapsto> ''bob'']))
     = [False] \<and>
   status (get_posts (fault_at (My_like 1) (Error_response ''timeout'')) demo_store
             [''viewer_id'' \<mapsto> ''bob'', ''user_id'' \<mapsto> ''bob'']) = 200 \<and>
   map liked_by_me (returned_posts
      (get_posts (fault_at (My_like 1) (Error_response ''timeout'')) demo_store
             [''viewer_id'' \<mapsto> ''bob'', ''user_id'' \<mapsto> ''bob''])) = [False]"
  by (simp add: get_posts_demo get_posts_fault_demo returned_posts_def json_def)
     (simp add: likes_of_pair_def demo_store_def)

text \<open>
  C4, as the handler has it. The feed answers 500, with the error message only, exactly
  when the posts query fails or the promise of a per-post lookup rejects. A per-post
  lookup that resolves to an error does not fail the call: in whatever sequence is
  returned, the post of such a lookup has \<open>like_count = 0\<close>, \<open>comment_count = 0\<close>,
  respectively \<open>liked_by_me = False\<close>.
\<close>

theorem feed_lookup_failure:
  "status (get_posts flt s q) =
     (if flt Posts_query \<noteq> None \<or>
         (\<exists>p \<in> set (posts s). lookup_rejects flt (currentUserId q) (p_id p))
      then 500 else 200) \<and>
   (status (get_posts flt s q) = 500 \<longrightarrow>
      payload (get_posts flt s q) = Error ''Failed to fetch posts'') \<and>
   (\<forall>e \<in> set (returned_posts (get_posts flt s q)).
      (flt (Like_count (p_id e)) \<noteq> None \<longrightarrow> like_count e = 0) \<and>
      (flt (Comment_count (p_id e)) \<noteq> None \<longrightarrow> comment_count e = 0) \<and>
      (flt (My_like (p_id e)) \<noteq> None \<longrightarrow> \<not> liked_by_me e))"
proof (intro conjI)
  have "(\<exists>p \<in> set (select_posts s). lookup_rejects flt (currentUserId q) (p_id p)) \<longleftrightarrow>
        (\<exists>p \<in> set (posts s). lookup_rejects flt (currentUserId q) (p_id p))"
    using select_posts_p_id [of s] by (metis (no_types, lifting) image_iff)
  then show "status (get_posts flt s q) =
     (if flt Posts_query \<noteq> None \<or>
         (\<exists>p \<in> set (posts s). lookup_rejects flt (currentUserId q) (p_id p))
      then 500 else 200)"
    by (simp add: get_posts_status)
  show "status (get_posts flt s q) = 500 \<longrightarrow>
      payload (get_posts flt s q) = Error ''Failed to fetch posts''"
    using get_posts_500 [of flt s q] by (auto simp: status_json_def)
  show "\<forall>e \<in> set (returned_posts (get_posts flt s q)).
      (flt (Like_count (p_id e)) \<noteq> None \<longrightarrow> like_count e = 0) \<and>
      (flt (Comment_count (p_id e)) \<noteq> None \<longrightarrow> comment_count e = 0) \<and>
      (flt (My_like (p_id e)) \<noteq> None \<longrightarrow> \<not> liked_by_me e)"
  proof
    fix e assume e: "e \<in> set (returned_posts (get_posts flt s q))"
    then have "get_posts flt s q = json (Posts (returned_posts (get_posts flt s q)))"
      by (auto simp: get_posts_unfold returned_posts_def json_def status_json_def
               split: sum.splits if_splits)
    with e obtain p where p: "enrich flt s (currentUserId q) p = Inr e"
      using get_posts_enriched by blast
    from enrich_Inr(1) [OF p] have i: "p_id p = p_id e" by (auto simp: row_of_def)
    from enrich_Inr(4,5,6) [OF p]
    show "(flt (Like_count (p_id e)) \<noteq> None \<longrightarrow> like_count e = 0) \<and>
      (flt (Comment_count (p_id e)) \<noteq> None \<longrightarrow> comment_count e = 0) \<and>
      (flt (My_like (p_id e)) \<noteq> None \<longrightarrow> \<not> liked_by_me e)"
      unfolding i by auto
  qed
qed

text \<open>
  A rejected like-count lookup and a failed posts query give 500; an error response to the
  viewer's-like lookup gives 200 and the flag false.
\<close>

theorem feed_lookup_failure_witness:
  "status (get_posts (fault_at (Like_count 1) (Rejected ''socket'')) demo_store Map.empty) = 500 \<and>
   payload (get_posts (fault_at (Like_count 1) (Rejected ''socket'')) demo_store Map.empty) =
     Error ''Failed to fetch posts'' \<and>
   status (get_posts (fault_at Posts_query (Error_response ''timeout'')) demo_store Map.empty) = 500 \<and>
   status (get_posts (fault_at (My_like 1) (Error_response ''timeout'')) demo_store
             [''user_id'' \<mapsto> ''bob'']) = 200 \<and>
   map liked_by_me (returned_posts
      (get_posts (fault_at (My_like 1) (Error_response ''timeout'')) demo_store
             [''user_id'' \<mapsto> ''bob''])) = [False]"
proof -
  have ps: "posts demo_store = [alice_post]" and i: "p_id alice_post = 1"
    by (simp_all add: demo_store_def alice_post_def)
  have a: "status (get_posts (fault_at (Like_count 1) (Rejected ''socket'')) demo_store Map.empty)
             = 500"
    and b: "payload (get_posts (fault_at (Like_count 1) (Rejected ''socket'')) demo_store Map.empty)
             = Error ''Failed to fetch posts''"
    using feed_lookup_failure
            [of "fault_at (Like_count 1) (Rejected ''socket'')" demo_store Map.empty]
    by (simp_all add: ps i fault_at_def lookup_rejects_def rejects_def)
  have c: "status (get_posts (fault_at Posts_query (Error_response ''timeout'')) demo_store
             Map.empty) = 500"
    using feed_lookup_failure
            [of "fault_at Posts_query (Error_response ''timeout'')" demo_store Map.empty]
    by (simp add: fault_at_def)
  have d: "status (get_posts (fault_at (My_like 1) (Error_response ''timeout'')) demo_store
             [''user_id'' \<mapsto> ''bob'']) = 200"
    using feed_lookup_failure
            [of "fault_at (My_like 1) (Error_response ''timeout'')" demo_store
                "[''user_id'' \<mapsto> ''bob'']"]
    by (simp add: ps i fault_at_def lookup_rejects_def rejects_def)
  have e: "map liked_by_me (returned_posts
      (get_posts (fault_at (My_like 1) (Error_response ''timeout'')) demo_store
             [''user_id'' \<mapsto> ''bob''])) = [False]"
    by (simp add: get_posts_fault_demo returned_posts_def json_def)
  from a b c d e show ?thesis by simp
qed

text \<open>
  C4 as stated fails: the comment-count lookup of post 1 fails with an error response, the
  call answers 200, and the post is returned with its count defaulted to 0 while one
  Comment row has its id.
\<close>

theorem feed_lookup_failure_counterexample:
  "fault_at (Comment_count 1) (Error_response ''timeout'') (Comment_count 1) =
     Some (Error_response ''timeout'') \<and>
   status (get_posts (fault_at (Comment_count 1) (Error_response ''timeout'')) demo_store
            Map.empty) = 200 \<and>
   map comment_count (returned_posts
     (get_posts (fault_at (Comment_count 1) (Error_response ''timeout'')) demo_store Map.empty))
     = [0] \<and>
   length (comments_of_post demo_store 1) = 1"
  by (simp add: get_posts_fault_demo returned_posts_def json_def)
     (simp add: comments_of_post_def demo_store_def fault_at_def)

text \<open>
  C5. Whenever the feed answers with a sequence, the sequence is the rows of the posts
  query in their order, each enriched (one returned post per stored post), and its
  \<open>created_at\<close> values descend; they descend strictly when no two posts share a
  timestamp. Whenever the comment list of a post answers with a sequence, it has one
  entry per comment of the post and its \<open>created_at\<close> values ascend, strictly when no
  two of these comments share a timestamp.
\<close>

theorem feed_and_comment_order:
  "(get_posts flt s q = json (Posts es) \<longrightarrow>
      map row_of es = select_posts s \<and>
      length es = length (posts s) \<and>
      sorted_wrt (\<ge>) (map p_created_at es) \<and>
      (distinct (map p_created_at (posts s)) \<longrightarrow> sorted_wrt (>) (map p_created_at es))) \<and>
   (get_comments cflt s postId = json (Comments cs) \<longrightarrow>
      length cs = length (comments_of_post s postId) \<and>
      sorted_wrt (\<le>) (map cr_created_at cs) \<and>
      (distinct (map c_created_at (comments_of_post s postId)) \<longrightarrow>
         sorted_wrt (<) (map cr_created_at cs)))"
proof (intro conjI impI)
  assume g: "get_posts flt s q = json (Posts es)"
  from get_posts_rows [OF g] show r: "map row_of es = select_posts s" .
  then have "length (map row_of es) = length (select_posts s)" by simp
  then show "length es = length (posts s)" by (simp add: select_posts_def)
  have "map p_created_at es = map p_created_at (map row_of es)"
    by (simp add: row_of_created_at comp_def)
  then have c: "map p_created_at es =
                  rev (map p_created_at (sort_key p_created_at (posts s)))"
    by (simp only: r select_posts_created_at)
  show "sorted_wrt (\<ge>) (map p_created_at es)"
    unfolding c by (simp add: sorted_wrt_rev)
  assume "distinct (map p_created_at (posts s))"
  then have "sorted_wrt (<) (map p_created_at (sort_key p_created_at (posts s)))"
    by (simp only: strict_sorted_iff sorted_sort_key distinct_map_sort_key)
  then show "sorted_wrt (>) (map p_created_at es)"
    unfolding c by (simp add: sorted_wrt_rev)
next
  assume g: "get_comments cflt s postId = json (Comments cs)"
  then have cs: "cs = map comment_view_of (select_comments s postId)"
    by (simp add: get_comments_json)
  then show "length cs = length (comments_of_post s postId)"
    by (simp add: select_comments_def)
  have c: "map cr_created_at cs =
             map c_created_at (sort_key c_created_at (comments_of_post s postId))"
    unfolding cs by (rule select_comments_created_at)
  show "sorted_wrt (\<le>) (map cr_created_at cs)"
    unfolding c by simp
  assume "distinct (map c_created_at (comments_of_post s postId))"
  then show "sorted_wrt (<) (map cr_created_at cs)"
    unfolding c by (simp only: strict_sorted_iff sorted_sort_key distinct_map_sort_key)
qed

text \<open>Two posts stored oldest first, two comments stored newest first.\<close>

theorem feed_and_comment_order_witness:
  "status (get_posts no_fault timeline_store Map.empty) = 200 \<and>
   map p_created_at (posts timeline_store) = [10, 20] \<and>
   map p_created_at (returned_posts (get_posts no_fault timeline_store Map.empty)) = [20, 10] \<and>
   sorted_wrt (>) (map p_created_at (returned_posts (get_posts no_fault timeline_store Map.empty))) \<and>
   status (get_comments None timeline_store 11) = 200 \<and>
   map c_created_at (comments_of_post timeline_store 11) = [31, 30] \<and>
   map cr_created_at (returned_comments (get_comments None timeline_store 11)) = [30, 31] \<and>
   sorted_wrt (<) (map cr_created_at (returned_comments (get_comments None timeline_store 11)))"
proof -
  have g: "get_posts no_fault timeline_store Map.empty =
             json (Posts (returned_posts (get_posts no_fault timeline_store Map.empty)))"
    using get_posts_timeline by (blast intro: get_posts_200)
  have c: "get_comments None timeline_store 11 =
             json (Comments (returned_comments (get_comments None timeline_store 11)))"
    using get_comments_timeline by (blast intro: get_comments_200)
  have d: "map p_created_at (posts timeline_store) = [10, 20]"
    and e: "map c_created_at (comments_of_post timeline_store 11) = [31, 30]"
    by (simp_all add: timeline_store_def comments_of_post_def)
  from feed_and_comment_order
         [of no_fault timeline_store Map.empty
             "returned_posts (get_posts no_fault timeline_store Map.empty)"
             None 11 "returned_comments (get_comments None timeline_store 11)"]
       g c
  have "sorted_wrt (>) (map p_created_at
          (returned_posts (get_posts no_fault timeline_store Map.empty)))"
    and "sorted_wrt (<) (map cr_created_at
          (returned_comments (get_comments None timeline_store 11)))"
    by (simp_all add: d e)
  with d e get_posts_timeline get_comments_timeline show ?thesis by simp
qed


section \<open>Properties of the like toggle\<close>

text \<open>
  C3, as the handler has it. From a state with no Like row for the pair, three calls one
  after the other answer \<open>liked = True\<close>, \<open>liked = False\<close>, \<open>liked = True\<close>, provided
  the store performs the operations they issue: the lookup and the insert of the first
  and of the third call, the lookup and the delete of the second. The first call
  inserts the row of the pair, the second deletes it (no row of the pair is left), the
  third inserts a row again.
\<close>

theorem toggle_like_round_trip:
  assumes absent: "likes_of_pair s postId userId = []"
    and first: "f1 Lookup_like = None" "f1 Insert_like = None"
    and second: "f2 Lookup_like = None" "f2 Delete_like = None"
    and third: "f3 Lookup_like = None" "f3 Insert_like = None"
  shows "let t1 = toggle_like f1 s postId userId;
             t2 = toggle_like f2 (snd t1) postId userId;
             t3 = toggle_like f3 (snd t2) postId userId
         in fst t1 = json (Liked True) \<and>
            fst t2 = json (Liked False) \<and>
            fst t3 = json (Liked True) \<and>
            likes (snd t1) =
              likes s @ [\<lparr>l_id = next_id s, l_post_id = postId, l_user_id = userId\<rparr>] \<and>
            likes (snd t2) = filter (\<lambda>l. l_id l \<noteq> next_id s) (likes (snd t1)) \<and>
            likes_of_pair (snd t2) postId userId = [] \<and>
            likes (snd t3) =
              likes (snd t2) @
                [\<lparr>l_id = next_id (snd t2), l_post_id = postId, l_user_id = userId\<rparr>]"
proof -
  let ?new = "\<lparr>l_id = next_id s, l_post_id = postId, l_user_id = userId\<rparr>"
  let ?s1 = "snd (insert_like s userId postId)"
  let ?s2 = "snd (delete_like_by_id ?s1 (next_id s))"
  let ?s3 = "snd (insert_like ?s2 userId postId)"
  have t1: "toggle_like f1 s postId userId = (json (Liked True), ?s1)"
    using absent first by (rule toggle_like_absent)
  have p1: "likes_of_pair ?s1 postId userId = [?new]"
    using absent by (simp add: likes_of_pair_insert)
  have t2: "toggle_like f2 ?s1 postId userId = (json (Liked False), ?s2)"
    using toggle_like_present [OF p1 second] by simp
  have p2: "likes_of_pair ?s2 postId userId = []"
    using absent
    by (auto simp add: likes_of_pair_def delete_like_by_id_def insert_like_def filter_empty_conv)
  have t3: "toggle_like f3 ?s2 postId userId = (json (Liked True), ?s3)"
    using p2 third by (rule toggle_like_absent)
  have l1: "likes ?s1 = likes s @ [?new]"
    by (simp add: insert_like_def)
  have l2: "likes ?s2 = filter (\<lambda>l. l_id l \<noteq> next_id s) (likes ?s1)"
    by (simp add: delete_like_by_id_def)
  have l3: "likes ?s3 =
              likes ?s2 @ [\<lparr>l_id = next_id ?s2, l_post_id = postId, l_user_id = userId\<rparr>]"
    by (simp add: insert_like_def)
  show ?thesis
    unfolding Let_def t1 snd_conv fst_conv t2 t3 using l1 l2 p2 l3 by simp
qed

text \<open>Alice toggles her like of post 1 in the example store, which holds Bob's like of it.\<close>

theorem toggle_like_round_trip_witness:
  "likes_of_pair demo_store 1 ''alice'' = [] \<and>
   likes demo_store = [\<lparr>l_id = 2, l_post_id = 1, l_user_id = ''bob''\<rparr>] \<and>
   (let t1 = toggle_like no_fault demo_store 1 ''alice'';
        t2 = toggle_like no_fault (snd t1) 1 ''alice'';
        t3 = toggle_like no_fault (snd t2) 1 ''alice''
    in payload (fst t1) = Liked True \<and>
       payload (fst t2) = Liked False \<and>
       payload (fst t3) = Liked True \<and>
       likes (snd t1) = [\<lparr>l_id = 2, l_post_id = 1, l_user_id = ''bob''\<rparr>,
                         \<lparr>l_id = 4, l_post_id = 1, l_user_id = ''alice''\<rparr>] \<and>
       likes (snd t2) = [\<lparr>l_id = 2, l_post_id = 1, l_user_id = ''bob''\<rparr>] \<and>
       likes (snd t3) = [\<lparr>l_id = 2, l_post_id = 1, l_user_id = ''bob''\<rparr>,
                         \<lparr>l_id = 5, l_post_id = 1, l_user_id = ''alice''\<rparr>])"
proof -
  have h: "likes_of_pair demo_store 1 ''alice'' = []"
    and l: "likes demo_store = [\<lparr>l_id = 2, l_post_id = 1, l_user_id = ''bob''\<rparr>]"
    and m: "next_id demo_store = 4"
    by (simp_all add: likes_of_pair_def demo_store_def)
  have f: "no_fault Lookup_like = None" "no_fault Insert_like = None"
    "no_fault Delete_like = None"
    by (simp_all add: no_fault_def)
  have n: "next_id (snd (toggle_like no_fault
              (snd (toggle_like no_fault demo_store 1 ''alice'')) 1 ''alice'')) = 5"
    by (simp add: toggle_like_def no_fault_def likes_of_pair_def await_def
          await_mut_def answered_def insert_like_def delete_like_by_id_def l m)
  show ?thesis
    using h l m n
      toggle_like_round_trip [OF h f(1) f(2) f(1) f(3) f(1) f(2)]
    by (simp add: Let_def json_def)
qed

text \<open>
  C3 as stated fails: no Like row exists for the pair and every insert resolves to an
  error, which the handler does not read. The three calls answer \<open>liked = True\<close> each,
  and no row is ever stored.
\<close>

theorem toggle_like_round_trip_counterexample:
  "likes_of_pair empty_store 7 ''bob'' = [] \<and>
   (let flt = fault_at Insert_like (Error_response ''violates foreign key constraint'');
        t1 = toggle_like flt empty_store 7 ''bob'';
        t2 = toggle_like flt (snd t1) 7 ''bob'';
        t3 = toggle_like flt (snd t2) 7 ''bob''
    in payload (fst t1) = Liked True \<and>
       payload (fst t2) = Liked True \<and>
       payload (fst t3) = Liked True \<and>
       likes (snd t1) = [] \<and>
       likes (snd t2) = [] \<and>
       likes (snd t3) = [])"
  by (simp add: toggle_like_def fault_at_def likes_of_pair_def empty_store_def await_def
        await_mut_def answered_def failed_def json_def Let_def)

text \<open>
  C10, as the handler has it. With the ids of the Like rows distinct, a call of the toggle
  leaves the likes as they were, appends one row, or removes one single row. When
  exactly one Like row exists for the pair, and the store performs the lookup and the
  delete, the call answers \<open>liked = False\<close> and removes that row and no other.
\<close>

theorem toggle_like_deletes_one:
  assumes d: "distinct (map l_id (likes s))"
  shows "(likes (snd (toggle_like flt s postId userId)) = likes s \<or>
          likes (snd (toggle_like flt s postId userId)) =
            likes s @ [\<lparr>l_id = next_id s, l_post_id = postId, l_user_id = userId\<rparr>] \<or>
          (\<exists>l \<in> set (likes s).
             likes (snd (toggle_like flt s postId userId)) = remove1 l (likes s))) \<and>
         (likes_of_pair s postId userId = [l] \<and> flt Lookup_like = None \<and>
          flt Delete_like = None \<longrightarrow>
            fst (toggle_like flt s postId userId) = json (Liked False) \<and>
            likes (snd (toggle_like flt s postId userId)) = remove1 l (likes s))"
proof (rule conjI)
  from toggle_like_cases [of flt s postId userId]
  show "likes (snd (toggle_like flt s postId userId)) = likes s \<or>
          likes (snd (toggle_like flt s postId userId)) =
            likes s @ [\<lparr>l_id = next_id s, l_post_id = postId, l_user_id = userId\<rparr>] \<or>
          (\<exists>l \<in> set (likes s).
             likes (snd (toggle_like flt s postId userId)) = remove1 l (likes s))"
    using filter_id_remove1 [OF d] likes_of_pair_single_mem by metis
next
  show "likes_of_pair s postId userId = [l] \<and> flt Lookup_like = None \<and>
          flt Delete_like = None \<longrightarrow>
            fst (toggle_like flt s postId userId) = json (Liked False) \<and>
            likes (snd (toggle_like flt s postId userId)) = remove1 l (likes s)"
  proof (rule impI)
    assume a: "likes_of_pair s postId userId = [l] \<and> flt Lookup_like = None \<and>
          flt Delete_like = None"
    then have t: "toggle_like flt s postId userId =
                  (json (Liked False), snd (delete_like_by_id s (l_id l)))"
      by (simp add: toggle_like_def await_def await_mut_def answered_def delete_like_by_id_def)
    from a have "l \<in> set (likes s)" by (blast intro: likes_of_pair_single_mem)
    with d have "filter (\<lambda>x. l_id x \<noteq> l_id l) (likes s) = remove1 l (likes s)"
      by (rule filter_id_remove1)
    with t show "fst (toggle_like flt s postId userId) = json (Liked False) \<and>
            likes (snd (toggle_like flt s postId userId)) = remove1 l (likes s)"
      by (simp add: delete_like_by_id_def)
  qed
qed

text \<open>Bob's like of post 1 is the one Like row of the example store.\<close>

theorem toggle_like_deletes_one_witness:
  "distinct (map l_id (likes demo_store)) \<and>
   likes_of_pair demo_store 1 ''bob'' = [\<lparr>l_id = 2, l_post_id = 1, l_user_id = ''bob''\<rparr>] \<and>
   fst (toggle_like no_fault demo_store 1 ''bob'') = json (Liked False) \<and>
   likes (snd (toggle_like no_fault demo_store 1 ''bob'')) = []"
proof -
  have d: "distinct (map l_id (likes demo_store))"
    and p: "likes_of_pair demo_store 1 ''bob'' = [\<lparr>l_id = 2, l_post_id = 1, l_user_id = ''bob''\<rparr>]"
    and l: "likes demo_store = [\<lparr>l_id = 2, l_post_id = 1, l_user_id = ''bob''\<rparr>]"
    by (simp_all add: demo_store_def likes_of_pair_def)
  from d p toggle_like_deletes_one
      [OF d, of no_fault 1 "''bob''" "\<lparr>l_id = 2, l_post_id = 1, l_user_id = ''bob''\<rparr>"]
  show ?thesis
    by (simp add: no_fault_def l)
qed

text \<open>
  C10 as stated fails: two Like rows exist for the pair, the \<^verbatim>\<open>.maybeSingle()\<close> lookup
  yields no row, and the call deletes nothing, inserts a third row and answers
  \<open>liked = True\<close>.
\<close>

theorem toggle_like_deletes_one_counterexample:
  "length (likes_of_pair duplicate_store 1 ''bob'') = 2 \<and>
   payload (fst (toggle_like no_fault duplicate_store 1 ''bob'')) = Liked True \<and>
   likes (snd (toggle_like no_fault duplicate_store 1 ''bob'')) =
     likes duplicate_store @ [\<lparr>l_id = 2, l_post_id = 1, l_user_id = ''bob''\<rparr>]"
  by (simp add: toggle_like_def no_fault_def likes_of_pair_def duplicate_store_def await_def
        await_mut_def failed_def insert_like_def json_def)


section \<open>Properties of the post handlers\<close>

text \<open>
  C6, as the handlers have it. Let a stored post (post ids being distinct) have an author
  other than the acting principal. An update of it by that principal answers 404, or
  500 when the promise of the ownership lookup rejects, and leaves the store unchanged.
  A delete of it by that principal leaves the store unchanged as well, and answers 200
  with \<open>success\<close> when the store performs the delete, 500 otherwise.
\<close>

theorem non_owner_mutation:
  assumes "distinct (map p_id (posts s))" and "p \<in> set (posts s)" and "p_user_id p \<noteq> userId"
  shows "update_post uflt s (p_id p) userId content remove_image =
           ((if rejects (uflt Ownership_lookup)
             then status_json 500 (Error ''Failed to update post'')
             else status_json 404 (Error ''Post not found or unauthorized'')), s) \<and>
         delete_post dflt s (p_id p) userId =
           ((if dflt = None then json Success
             else status_json 500 (Error ''Failed to delete post'')), s)"
proof -
  from assms have n: "owned_rows s (p_id p) userId = []" by (rule not_owner_no_rows)
  show ?thesis
    using update_post_not_found [OF n] delete_own_post_none [OF n]
    by (simp add: delete_post_unfold)
qed

text \<open>Bob tries to update and to delete Alice's post.\<close>

theorem non_owner_mutation_witness:
  "distinct (map p_id (posts demo_store)) \<and> alice_post \<in> set (posts demo_store) \<and>
   p_user_id alice_post \<noteq> ''bob'' \<and>
   update_post no_fault demo_store 1 ''bob'' (JStr ''hacked'') JUndefined =
     (status_json 404 (Error ''Post not found or unauthorized''), demo_store) \<and>
   delete_post None demo_store 1 ''bob'' = (json Success, demo_store)"
proof -
  have a: "distinct (map p_id (posts demo_store))" and b: "alice_post \<in> set (posts demo_store)"
    and c: "p_user_id alice_post \<noteq> ''bob''" and i: "p_id alice_post = 1"
    by (simp_all add: demo_store_def alice_post_def)
  from a b c non_owner_mutation [OF a b c, of no_fault "JStr ''hacked''" JUndefined None]
  show ?thesis
    by (simp add: i no_fault_def rejects_def)
qed

text \<open>
  C6 as stated fails for the delete: Bob's delete of Alice's post answers 200 with
  \<open>success\<close>, not 404.
\<close>

theorem non_owner_mutation_counterexample:
  "alice_post \<in> set (posts demo_store) \<and> p_id alice_post = 1 \<and>
   p_user_id alice_post = ''alice'' \<and>
   status (fst (delete_post None demo_store 1 ''bob'')) = 200 \<and>
   payload (fst (delete_post None demo_store 1 ''bob'')) = Success"
  by (simp add: delete_post_unfold json_def) (simp add: demo_store_def alice_post_def)

text \<open>
  C7, as the handlers have it. Creating a text post preserves the invariant that every
  stored post has content that is non-empty after trimming: it leaves the posts as they
  were or appends one row whose content is the trimmed request content, which is not
  empty. Creating a post with an image leaves the posts as they were or appends one row
  whose content is the trimmed request content, or the empty string when the request
  carries none.
\<close>

theorem persisted_content:
  "((\<forall>p \<in> set (posts s). trim (p_content p) \<noteq> []) \<longrightarrow>
      (\<forall>p \<in> set (posts (snd (create_post flt s userId content now))).
         trim (p_content p) \<noteq> [])) \<and>
   (posts (snd (create_post flt s userId content now)) = posts s \<or>
      (\<exists>c. content = JStr c \<and> trim c \<noteq> [] \<and>
        posts (snd (create_post flt s userId content now)) =
          posts s @ [\<lparr>p_id = next_id s, p_content = trim c, p_image_url = None,
                      p_created_at = now, p_user_id = userId\<rparr>])) \<and>
   (posts (snd (upload_post uflt url s userId content req_file date_now now)) = posts s \<or>
      (\<exists>f. req_file = Some f \<and>
        posts (snd (upload_post uflt url s userId content req_file date_now now)) =
          posts s @ [\<lparr>p_id = next_id s, p_content = content_or_empty content,
                      p_image_url = Some (getPublicUrl url (fileName userId date_now f)),
                      p_created_at = now, p_user_id = userId\<rparr>]))"
proof (intro conjI impI)
  assume inv: "\<forall>p \<in> set (posts s). trim (p_content p) \<noteq> []"
  from create_post_posts [of flt s userId content now]
  show "\<forall>p \<in> set (posts (snd (create_post flt s userId content now))).
         trim (p_content p) \<noteq> []"
  proof
    assume "posts (snd (create_post flt s userId content now)) = posts s"
    with inv show ?thesis by simp
  next
    assume "\<exists>c. content = JStr c \<and> trim c \<noteq> [] \<and> flt = None \<and>
        posts (snd (create_post flt s userId content now)) =
          posts s @ [\<lparr>p_id = next_id s, p_content = trim c, p_image_url = None,
                      p_created_at = now, p_user_id = userId\<rparr>]"
    with inv show ?thesis by (auto simp: trim_idem)
  qed
next
  from create_post_posts [of flt s userId content now]
  show "posts (snd (create_post flt s userId content now)) = posts s \<or>
      (\<exists>c. content = JStr c \<and> trim c \<noteq> [] \<and>
        posts (snd (create_post flt s userId content now)) =
          posts s @ [\<lparr>p_id = next_id s, p_content = trim c, p_image_url = None,
                      p_created_at = now, p_user_id = userId\<rparr>])"
    by blast
next
  show "posts (snd (upload_post uflt url s userId content req_file date_now now)) = posts s \<or>
      (\<exists>f. req_file = Some f \<and>
        posts (snd (upload_post uflt url s userId content req_file date_now now)) =
          posts s @ [\<lparr>p_id = next_id s, p_content = content_or_empty content,
                      p_image_url = Some (getPublicUrl url (fileName userId date_now f)),
                      p_created_at = now, p_user_id = userId\<rparr>])"
    by (rule upload_post_posts)
qed

text \<open>Bob posts "  hello " to the example store, and then a blank string.\<close>

theorem persisted_content_witness:
  "trim (p_content alice_post) \<noteq> [] \<and>
   map p_content (posts (snd (create_post None demo_store ''bob'' (JStr ''  hello '') 20))) =
     [''hello'', ''hello''] \<and>
   trim ''hello'' \<noteq> [] \<and>
   posts (snd (create_post None demo_store ''bob'' (JStr ''   '') 20)) = posts demo_store"
proof -
  have inv: "\<forall>p \<in> set (posts demo_store). trim (p_content p) \<noteq> []"
    by (simp add: demo_store_def alice_post_def trim_def is_white_space_def)
  have a: "map p_content (posts (snd (create_post None demo_store ''bob'' (JStr ''  hello '') 20)))
            = [''hello'', ''hello'']"
    by (simp add: create_post_hello alice_post_def)
  have b: "posts (snd (create_post None demo_store ''bob'' (JStr ''   '') 20)) = posts demo_store"
    by (simp add: create_post_def trim_def is_white_space_def)
  from persisted_content [of demo_store None "''bob''" "JStr ''  hello ''" 20] inv
  have "\<forall>p \<in> set (posts (snd (create_post None demo_store ''bob'' (JStr ''  hello '') 20))).
         trim (p_content p) \<noteq> []"
    by blast
  then have c: "trim ''hello'' \<noteq> []"
    by (simp add: create_post_hello)
  from inv a b c show ?thesis by (simp add: demo_store_def)
qed

text \<open>
  C7 as stated fails: an upload without a content field answers 201 and stores a post
  whose content is empty.
\<close>

theorem persisted_content_counterexample:
  "status (fst (upload_post no_fault ''https://x.supabase.co'' empty_store ''alice'' JUndefined
                  (Some cat_jpg) 1700000000000 5)) = 201 \<and>
   map p_content (posts (snd (upload_post no_fault ''https://x.supabase.co'' empty_store ''alice''
                  JUndefined (Some cat_jpg) 1700000000000 5))) = [[]] \<and>
   trim [] = []"
  by (simp add: upload_post_def no_fault_def await_mut_def storage_upload_def empty_store_def
        answered_def trim_def respond_row_def insert_post_def Let_def status_json_def)

text \<open>
  C8. A delete that the store performs answers 200 with \<open>success\<close> whatever it removed:
  the posts left are those of another id or another owner, and when no post has that id
  and that owner the store is unchanged.
\<close>

theorem delete_is_idempotent_success:
  "fst (delete_post None s postId userId) = json Success \<and>
   posts (snd (delete_post None s postId userId)) =
     filter (\<lambda>p. \<not> (p_id p = postId \<and> p_user_id p = userId)) (posts s) \<and>
   (owned_rows s postId userId = [] \<longrightarrow> snd (delete_post None s postId userId) = s)"
  by (simp add: delete_post_unfold delete_own_post_none) (simp add: delete_own_post_def)

text \<open>
  Bob deletes Alice's post, Alice deletes a post that does not exist, Alice deletes her
  own post.
\<close>

theorem delete_is_idempotent_success_witness:
  "owned_rows demo_store 1 ''bob'' = [] \<and>
   delete_post None demo_store 1 ''bob'' = (json Success, demo_store) \<and>
   owned_rows demo_store 99 ''alice'' = [] \<and>
   delete_post None demo_store 99 ''alice'' = (json Success, demo_store) \<and>
   fst (delete_post None demo_store 1 ''alice'') = json Success \<and>
   posts (snd (delete_post None demo_store 1 ''alice'')) = []"
proof -
  have a: "owned_rows demo_store 1 ''bob'' = []" and b: "owned_rows demo_store 99 ''alice'' = []"
    by (simp_all add: owned_rows_def demo_store_def alice_post_def)
  have c: "posts demo_store = [alice_post]" by (simp add: demo_store_def)
  from a b delete_is_idempotent_success [of demo_store 1 "''bob''"]
    delete_is_idempotent_success [of demo_store 99 "''alice''"]
    delete_is_idempotent_success [of demo_store 1 "''alice''"]
  show ?thesis
    by (simp add: prod_eq_iff c alice_post_def)
qed

text \<open>
  C9. When the upload to object storage fails (the call resolves to an error or rejects,
  or the object name is taken), the handler answers 500 and the store is unchanged; in
  particular no post is inserted.
\<close>

theorem upload_failure_inserts_nothing:
  assumes "flt Storage_upload \<noteq> None \<or>
           fileName userId date_now f \<in> set (map fst (bucket s))"
  shows "upload_post flt url s userId content (Some f) date_now now =
           (status_json 500 (Error ''Failed to create post with image''), s)"
proof (cases "flt Storage_upload")
  case None
  with assms have "fileName userId date_now f \<in> set (map fst (bucket s))" by simp
  with None show ?thesis
    by (simp add: upload_post_def fileName_def await_mut_def storage_upload_def failed_def Let_def)
next
  case (Some x)
  then show ?thesis
    by (cases x)
       (simp_all add: upload_post_def fileName_def await_mut_def failed_def Let_def)
qed

text \<open>The upload is refused with an error response, and with a rejected promise.\<close>

theorem upload_failure_inserts_nothing_witness:
  "fault_at Storage_upload (Error_response ''quota'') Storage_upload \<noteq> None \<and>
   upload_post (fault_at Storage_upload (Error_response ''quota'')) ''https://x.supabase.co''
       demo_store ''alice'' (JStr ''my cat'') (Some cat_jpg) 1700000000000 5 =
     (status_json 500 (Error ''Failed to create post with image''), demo_store) \<and>
   upload_post (fault_at Storage_upload (Rejected ''socket'')) ''https://x.supabase.co''
       demo_store ''alice'' (JStr ''my cat'') (Some cat_jpg) 1700000000000 5 =
     (status_json 500 (Error ''Failed to create post with image''), demo_store)"
proof -
  have a: "fault_at Storage_upload (Error_response ''quota'') Storage_upload \<noteq> None"
    and b: "fault_at Storage_upload (Rejected ''socket'') Storage_upload \<noteq> None"
    by (simp_all add: fault_at_def)
  from a b
    upload_failure_inserts_nothing
      [of "fault_at Storage_upload (Error_response ''quota'')" "''alice''" 1700000000000 cat_jpg
          demo_store "''https://x.supabase.co''" "JStr ''my cat''" 5]
    upload_failure_inserts_nothing
      [of "fault_at Storage_upload (Rejected ''socket'')" "''alice''" 1700000000000 cat_jpg
          demo_store "''https://x.supabase.co''" "JStr ''my cat''" 5]
  show ?thesis by simp
qed

end
